theory Spec2Isabelle
  imports Main "HOL-Library.Sublist" "HOL-Library.Signed_Division"
begin

section \<open>The OAuth exchange of the Strava client (oauth.go)\<close>

text \<open>
  The development embeds the functions of \<^verbatim>\<open>oauth.go\<close>: the two builders of the
  authorization URL, \<^verbatim>\<open>Authorize\<close>, \<^verbatim>\<open>ExchangeToken\<close> and the handler built by
  \<^verbatim>\<open>HandlerFunc\<close>. What the package takes from outside is a parameter of the model:
  the package-level variables, the HTTP client, the JSON decoder of the standard
  library and the type of the athlete record.
\<close>

subsection \<open>Package-level configuration\<close>

text \<open>
  \<^verbatim>\<open>ClientId\<close>, \<^verbatim>\<open>ClientSecret\<close> and \<^verbatim>\<open>basePath\<close> are package-level names that
  \<^verbatim>\<open>oauth.go\<close> reads and that another file declares. \<^verbatim>\<open>ClientId\<close> is formatted with
  \<^verbatim>\<open>%d\<close> and compared with 0, so it is an integer; no arithmetic is done on it.
\<close>

record config =
  ClientId :: int
  ClientSecret :: string
  basePath :: string

subsection \<open>Formatting: \<^verbatim>\<open>fmt.Sprintf("%d", n)\<close>\<close>

definition digit_char :: "nat \<Rightarrow> char" where
  "digit_char d = ''0123456789'' ! d"

fun fmt_nat :: "nat \<Rightarrow> string" where
  "fmt_nat n = (if n < 10 then [digit_char n] else fmt_nat (n div 10) @ [digit_char (n mod 10)])"

declare fmt_nat.simps [simp del]

definition fmt_d :: "int \<Rightarrow> string" where
  "fmt_d i = (if i < 0 then CHR ''-'' # fmt_nat (nat (- i)) else fmt_nat (nat i))"

subsection \<open>Data of the exchange\<close>

text \<open>
  \<^verbatim>\<open>AthleteSummary\<close> is declared in another file of the package; the response is
  polymorphic in it. The two \<^verbatim>\<open>int64\<close> fields are only stored, never computed with.
\<close>

record 'a AuthorizationResponse =
  AccessToken :: string
  RefreshToken :: string
  ExpiresAt :: int
  ExpiresIn :: int
  Athlete :: 'a
  State :: string

record StravaError =
  Code :: string
  Field :: string
  Resource :: string

record StravaErrorResponse =
  Errors :: "StravaError list"
  Message :: string

text \<open>
  Modelled from the spec: the type \<^verbatim>\<open>Error\<close> that \<^verbatim>\<open>Authorize\<close> decodes a failed
  response into is declared outside \<^verbatim>\<open>oauth.go\<close>. The spec gives it the fields of its
  ErrorResponse (an ordered sequence of error details, each with code, field and
  resource, and a message), which are those of \<^verbatim>\<open>StravaErrorResponse\<close>; the code reads
  \<^verbatim>\<open>response.Errors[0].Resource\<close> from it.
\<close>

type_synonym Error = StravaErrorResponse

text \<open>
  The error values. The four \<^verbatim>\<open>OAuth...Err\<close> variables are declared outside
  \<^verbatim>\<open>oauth.go\<close>; they are four distinct error values. \<^verbatim>\<open>ApiError\<close> is a pointer to the
  decoded \<^verbatim>\<open>Error\<close> returned as an error, \<^verbatim>\<open>errors_New\<close> is \<^verbatim>\<open>errors.New\<close> with its
  message, \<^verbatim>\<open>TransportError\<close> is the error of \<^verbatim>\<open>PostForm\<close> and \<^verbatim>\<open>UnmarshalError\<close> the
  error of \<^verbatim>\<open>json.Unmarshal\<close>, both handed on as they are.
\<close>

datatype error =
    OAuthAuthorizationDeniedErr
  | OAuthInvalidCredentialsErr
  | OAuthInvalidCodeErr
  | OAuthServerErr
  | ApiError Error
  | errors_New string
  | TransportError string
  | UnmarshalError string

subsection \<open>The collaborators: HTTP and JSON\<close>

text \<open>
  \<^verbatim>\<open>url.Values\<close> maps a key to a list of values. A client is what \<^verbatim>\<open>PostForm\<close> does
  with a URL and a form: it fails with a transport error or delivers a response. Of the
  response the code reads the status code and the bytes of the body (the error of
  \<^verbatim>\<open>ReadAll\<close> is dropped by the code, so \<^verbatim>\<open>Body\<close> stands for the bytes read). A
  \<^verbatim>\<open>PostForm\<close> that fails gives its error and, when it is the redirect policy that
  failed, a response with it, nil otherwise.
\<close>

type_synonym url_Values = "string \<rightharpoonup> string list"

record http_Response =
  StatusCode :: int
  Body :: string

type_synonym http_Client =
  "string \<Rightarrow> url_Values \<Rightarrow> (string \<times> http_Response option) + http_Response"

text \<open>
  Of the inbound request the handler reads \<^verbatim>\<open>FormValue\<close> only: the first value of the
  key in the parsed form, the empty string when there is none. For the redirect of the
  browser, a GET request, the parsed form is the query of the URL.
\<close>

record http_Request =
  Form :: url_Values

definition FormValue :: "http_Request \<Rightarrow> string \<Rightarrow> string" where
  "FormValue r key = (case Form r key of Some (v # vs) \<Rightarrow> v | _ \<Rightarrow> [])"

text \<open>
  \<^verbatim>\<open>json.Unmarshal(data, &v)\<close> updates \<^verbatim>\<open>v\<close> and returns an error or nil: a decoder
  takes the bytes and the value before and gives the value after with the error, if
  any. The zero value of \<^verbatim>\<open>AthleteSummary\<close> comes with the runtime as well.
\<close>

type_synonym 'v json_Unmarshal = "string \<Rightarrow> 'v \<Rightarrow> 'v \<times> string option"

record 'a runtime =
  http_DefaultClient :: http_Client
  Unmarshal_Error :: "Error json_Unmarshal"
  Unmarshal_StravaErrorResponse :: "StravaErrorResponse json_Unmarshal"
  Unmarshal_AuthorizationResponse :: "'a AuthorizationResponse json_Unmarshal"
  AthleteSummary_zero :: 'a

definition zero_StravaErrorResponse :: StravaErrorResponse where
  "zero_StravaErrorResponse = \<lparr>Errors = [], Message = []\<rparr>"

definition zero_AuthorizationResponse :: "'a \<Rightarrow> 'a AuthorizationResponse" where
  "zero_AuthorizationResponse z =
     \<lparr>AccessToken = [], RefreshToken = [], ExpiresAt = 0, ExpiresIn = 0, Athlete = z, State = []\<rparr>"

record OAuthAuthenticator =
  CallbackURL :: string
  RequestClientGenerator :: "(http_Request \<Rightarrow> http_Client option) option"

subsection \<open>The authorization URL\<close>

text \<open>The format string shared by both builders, with its four arguments.\<close>

definition Sprintf_authorize :: "string \<Rightarrow> int \<Rightarrow> string \<Rightarrow> string \<Rightarrow> string" where
  "Sprintf_authorize base cid callback scope =
     base @ ''/oauth/authorize?client_id='' @ fmt_d cid
       @ ''&response_type=code&redirect_uri='' @ callback @ ''&scope='' @ scope"

text \<open>The method \<^verbatim>\<open>OAuthAuthenticator.AuthorizationURL(state, scope, force)\<close>.\<close>

definition OAuthAuthenticator_AuthorizationURL ::
  "config \<Rightarrow> OAuthAuthenticator \<Rightarrow> string \<Rightarrow> string \<Rightarrow> bool \<Rightarrow> string" where
  "OAuthAuthenticator_AuthorizationURL cfg auth state scope force =
     (let path = Sprintf_authorize (basePath cfg) (ClientId cfg) (CallbackURL auth) scope;
          path = (if state \<noteq> [] then path @ ''&state='' @ state else path);
          path = (if force then path @ ''&approval_prompt=force'' else path)
      in path)"

text \<open>The package-level function \<^verbatim>\<open>AuthorizationURL(callbackURL, scope)\<close>.\<close>

definition AuthorizationURL :: "config \<Rightarrow> string \<Rightarrow> string \<Rightarrow> error + string" where
  "AuthorizationURL cfg callbackURL scope =
     (if ClientId cfg = 0 \<or> ClientId cfg < 0 then Inl (errors_New ''clientId is empty'')
      else if callbackURL = [] then Inl (errors_New ''callbackURL is empty'')
      else if scope = [] then Inl (errors_New ''scope is empty'')
      else Inr (Sprintf_authorize (basePath cfg) (ClientId cfg) callbackURL scope))"

subsection \<open>The token exchange\<close>

text \<open>
  Every \<^verbatim>\<open>PostForm\<close> the code issues is recorded, in order, with its URL and form: the
  functions return their result together with the list of the requests they sent.
\<close>

type_synonym post = "string \<times> url_Values"

text \<open>
  \<^verbatim>\<open>Authorize(code, client)\<close>. The receiver is not read. A nil client is \<open>None\<close>.
  The integer division of Go truncates towards zero, which is \<open>sdiv\<close>.
\<close>

definition Authorize ::
  "config \<Rightarrow> 'a runtime \<Rightarrow> OAuthAuthenticator \<Rightarrow> string \<Rightarrow> http_Client option
     \<Rightarrow> (error + 'a AuthorizationResponse) \<times> post list" where
  "Authorize cfg rt auth code client =
     (if code = [] then (Inl OAuthInvalidCodeErr, [])
      else
        let client = (case client of None \<Rightarrow> http_DefaultClient rt | Some c \<Rightarrow> c);
            url = basePath cfg @ ''/oauth/token'';
            values = [''client_id'' \<mapsto> [fmt_d (ClientId cfg)],
                      ''client_secret'' \<mapsto> [ClientSecret cfg],
                      ''code'' \<mapsto> [code]]
        in (case client url values of
              Inl (err, resp) \<Rightarrow> Inl (TransportError err)
            | Inr resp \<Rightarrow>
                if StatusCode resp sdiv 100 = 5 then Inl OAuthServerErr
                else if StatusCode resp sdiv 100 \<noteq> 2 then
                  (let response = fst (Unmarshal_Error rt (Body resp) zero_StravaErrorResponse)
                   in if length (Errors response) = 0 then Inl OAuthServerErr
                      else if Resource (Errors response ! 0) = ''Application''
                        then Inl OAuthInvalidCredentialsErr
                      else if Resource (Errors response ! 0) = ''RequestToken''
                        then Inl OAuthInvalidCodeErr
                      else Inl (ApiError response))
                else
                  (case Unmarshal_AuthorizationResponse rt (Body resp)
                          (zero_AuthorizationResponse (AthleteSummary_zero rt)) of
                     (response, Some err) \<Rightarrow> Inl (UnmarshalError err)
                   | (response, None) \<Rightarrow> Inr response),
            [(url, values)]))"

text \<open>
  \<^verbatim>\<open>ExchangeToken(values)\<close> returns three values: the decoded response or nil, the
  HTTP response or nil, and the error or nil. It posts with the default client; when
  the post fails it hands on the error with whatever response came with it. The
  decoded \<^verbatim>\<open>stravaErr\<close> is not read after it is filled. \<^verbatim>\<open>url.Values\<close> is a Go map:
  the argument can be nil (\<open>None\<close>), and then \<^verbatim>\<open>values.Set\<close> panics before anything
  is sent. \<^verbatim>\<open>Set\<close> replaces the values of a key in the caller's map; the form as it
  is sent is kept in the list of requests.
\<close>

datatype panic = assignment_to_entry_in_nil_map

definition ExchangeToken ::
  "config \<Rightarrow> 'a runtime \<Rightarrow> url_Values option
     \<Rightarrow> (panic + 'a AuthorizationResponse option \<times> http_Response option \<times> error option)
          \<times> post list" where
  "ExchangeToken cfg rt values =
     (case values of
        None \<Rightarrow> (Inl assignment_to_entry_in_nil_map, [])
      | Some values \<Rightarrow>
         (let values = values(''client_id'' \<mapsto> [fmt_d (ClientId cfg)]);
              values = values(''client_secret'' \<mapsto> [ClientSecret cfg]);
              url = basePath cfg @ ''/oauth/token''
          in (Inr (case http_DefaultClient rt url values of
                Inl (err, resp) \<Rightarrow> (None, resp, Some (TransportError err))
              | Inr resp \<Rightarrow>
                  if StatusCode resp sdiv 100 \<noteq> 2 then
                    (let stravaErr = fst (Unmarshal_StravaErrorResponse rt (Body resp)
                                            zero_StravaErrorResponse)
                     in (None, Some resp, Some (errors_New ''Strava API error'')))
                  else
                    (case Unmarshal_AuthorizationResponse rt (Body resp)
                            (zero_AuthorizationResponse (AthleteSummary_zero rt)) of
                       (response, Some err) \<Rightarrow> (None, Some resp, Some (UnmarshalError err))
                     | (response, None) \<Rightarrow> (Some response, Some resp, None))),
              [(url, values)])))"

subsection \<open>The callback handler\<close>

text \<open>
  \<^verbatim>\<open>HandlerFunc(success, failure)\<close> builds the handler of a request \<open>r\<close> with its
  response writer \<open>w\<close>. On every path the handler ends by calling one continuation:
  its outcome is what that call yields, paired with the requests sent before it. Both
  continuations are taken to be functions, not nil.
\<close>

definition HandlerFunc ::
  "config \<Rightarrow> 'a runtime \<Rightarrow> OAuthAuthenticator
     \<Rightarrow> ('a AuthorizationResponse \<Rightarrow> 'w \<Rightarrow> http_Request \<Rightarrow> 'r)
     \<Rightarrow> (error \<Rightarrow> 'w \<Rightarrow> http_Request \<Rightarrow> 'r)
     \<Rightarrow> 'w \<Rightarrow> http_Request \<Rightarrow> 'r \<times> post list" where
  "HandlerFunc cfg rt auth success failure = (\<lambda>w r.
     if FormValue r ''error'' = ''access_denied''
       then (failure OAuthAuthorizationDeniedErr w r, [])
     else
       let client = Some (http_DefaultClient rt);
           client = (case RequestClientGenerator auth of
                       None \<Rightarrow> client
                     | Some gen \<Rightarrow> gen r)
       in (case Authorize cfg rt auth (FormValue r ''code'') client of
             (Inl err, sent) \<Rightarrow> (failure err w r, sent)
           | (Inr resp, sent) \<Rightarrow> (success (resp\<lparr>State := FormValue r ''state''\<rparr>) w r, sent)))"

subsection \<open>Counting occurrences of a substring\<close>

text \<open>
  The number of positions of a string at which a pattern starts. It is positive exactly
  when the pattern is a substring (\<open>occurrences_pos_iff\<close> below).
\<close>

fun occurrences :: "string \<Rightarrow> string \<Rightarrow> nat" where
  "occurrences pat [] = (if pat = [] then 1 else 0)"
| "occurrences pat (c # cs) = (if prefix pat (c # cs) then 1 else 0) + occurrences pat cs"

subsection \<open>Notions used to state the properties\<close>

text \<open>
  The client \<^verbatim>\<open>Authorize\<close> posts with, the URL it posts to and the form it sends, named
  so that a property can say which response the transport delivered.
\<close>

definition client_or_default :: "'a runtime \<Rightarrow> http_Client option \<Rightarrow> http_Client" where
  "client_or_default rt client = (case client of None \<Rightarrow> http_DefaultClient rt | Some c \<Rightarrow> c)"

definition token_url :: "config \<Rightarrow> string" where
  "token_url cfg = basePath cfg @ ''/oauth/token''"

definition code_form :: "config \<Rightarrow> string \<Rightarrow> url_Values" where
  "code_form cfg code = [''client_id'' \<mapsto> [fmt_d (ClientId cfg)],
                         ''client_secret'' \<mapsto> [ClientSecret cfg],
                         ''code'' \<mapsto> [code]]"

text \<open>The form \<^verbatim>\<open>ExchangeToken\<close> sends: the caller's values with the two credentials set.\<close>

definition token_form :: "config \<Rightarrow> url_Values \<Rightarrow> url_Values" where
  "token_form cfg values =
     values(''client_id'' \<mapsto> [fmt_d (ClientId cfg)], ''client_secret'' \<mapsto> [ClientSecret cfg])"

text \<open>The client the handler passes to \<^verbatim>\<open>Authorize\<close> for a request.\<close>

definition handler_client ::
  "'a runtime \<Rightarrow> OAuthAuthenticator \<Rightarrow> http_Request \<Rightarrow> http_Client option" where
  "handler_client rt auth r =
     (case RequestClientGenerator auth of
        None \<Rightarrow> Some (http_DefaultClient rt)
      | Some gen \<Rightarrow> gen r)"

text \<open>
  The classification of a failed response as the specification words it, from the
  status code and the decoded error response: a status of 500 to 599 is a server error
  whatever the body; otherwise no error detail is a server error, a first detail on the
  resource Application is invalid credentials, on RequestToken an invalid code, and
  anything else is the decoded error response itself.
\<close>

definition classify :: "int \<Rightarrow> Error \<Rightarrow> error" where
  "classify status parsed =
     (if 500 \<le> status \<and> status \<le> 599 then OAuthServerErr
      else (case Errors parsed of
              [] \<Rightarrow> OAuthServerErr
            | d # ds \<Rightarrow>
                if Resource d = ''Application'' then OAuthInvalidCredentialsErr
                else if Resource d = ''RequestToken'' then OAuthInvalidCodeErr
                else ApiError parsed))"

text \<open>
  A string that contains none of the five names of the query parameters of the
  authorization URL.
\<close>

definition none_of_the_parameter_names :: "string \<Rightarrow> bool" where
  "none_of_the_parameter_names s \<longleftrightarrow>
     (\<forall>pat \<in> set [''client_id'', ''redirect_uri'', ''scope'', ''state'', ''approval_prompt''].
        occurrences pat s = 0)"

subsection \<open>A stubbed transport and decoder\<close>

text \<open>
  Concrete collaborators on which the functions are evaluated: a configuration, an
  authenticator without client generator, a default client that answers every request
  with one given response, and a decoder that knows five bodies and rejects every other
  one, leaving the value as it found it. On the body whose \<^verbatim>\<open>message\<close> is a number
  it does what \<^verbatim>\<open>json.Unmarshal\<close> does with a value of the wrong type for a field: it
  skips that field, fills in the rest and returns the error of the mismatch.
\<close>

definition example_config :: config where
  "example_config =
     \<lparr>ClientId = 1234, ClientSecret = ''s3cr3t'', basePath = ''https://www.strava.com''\<rparr>"

definition example_auth :: OAuthAuthenticator where
  "example_auth =
     \<lparr>CallbackURL = ''http://localhost:8080/exchange_token'', RequestClientGenerator = None\<rparr>"

definition example_request :: http_Request where
  "example_request = \<lparr>Form = [''code'' \<mapsto> [''abc''], ''state'' \<mapsto> [''abc123'']]\<rparr>"

definition body_Application :: string where
  \<open>body_Application = ''{"errors":[{"resource":"Application"}]}''\<close>

definition body_RequestToken :: string where
  \<open>body_RequestToken = ''{"errors":[{"resource":"RequestToken"}]}''\<close>

definition body_Athlete :: string where
  \<open>body_Athlete = ''{"errors":[{"resource":"Athlete"}]}''\<close>

definition body_Application_bad_message :: string where
  \<open>body_Application_bad_message = ''{"errors":[{"resource":"Application"}],"message":5}''\<close>

definition body_token :: string where
  \<open>body_token =
     ''{"access_token":"abc","refresh_token":"def","expires_at":1700000000,"expires_in":21600}''\<close>

definition stub_Unmarshal_Error :: "Error json_Unmarshal" where
  "stub_Unmarshal_Error data v =
     (if data = body_Application
        then (v\<lparr>Errors := [\<lparr>Code = [], Field = [], Resource = ''Application''\<rparr>]\<rparr>, None)
      else if data = body_RequestToken
        then (v\<lparr>Errors := [\<lparr>Code = [], Field = [], Resource = ''RequestToken''\<rparr>]\<rparr>, None)
      else if data = body_Athlete
        then (v\<lparr>Errors := [\<lparr>Code = [], Field = [], Resource = ''Athlete''\<rparr>]\<rparr>, None)
      else if data = body_Application_bad_message
        then (v\<lparr>Errors := [\<lparr>Code = [], Field = [], Resource = ''Application''\<rparr>]\<rparr>,
              Some ''json: cannot unmarshal number into Go struct field of type string'')
      else (v, Some ''invalid character''))"

definition stub_Unmarshal_AuthorizationResponse ::
  "unit AuthorizationResponse json_Unmarshal" where
  "stub_Unmarshal_AuthorizationResponse data v =
     (if data = body_token
        then (v\<lparr>AccessToken := ''abc'', RefreshToken := ''def'',
                ExpiresAt := 1700000000, ExpiresIn := 21600\<rparr>, None)
      else (v, Some ''unexpected end of JSON input''))"

definition stub_runtime :: "http_Response \<Rightarrow> unit runtime" where
  "stub_runtime resp =
     \<lparr>http_DefaultClient = (\<lambda>url values. Inr resp),
      Unmarshal_Error = stub_Unmarshal_Error,
      Unmarshal_StravaErrorResponse = stub_Unmarshal_Error,
      Unmarshal_AuthorizationResponse = stub_Unmarshal_AuthorizationResponse,
      AthleteSummary_zero = ()\<rparr>"

section \<open>Properties\<close>

lemmas fixture_defs =
  example_config_def example_auth_def stub_runtime_def stub_Unmarshal_Error_def
  stub_Unmarshal_AuthorizationResponse_def body_Application_def body_RequestToken_def
  body_Athlete_def body_Application_bad_message_def body_token_def
  client_or_default_def token_url_def code_form_def
  zero_StravaErrorResponse_def zero_AuthorizationResponse_def

subsection \<open>Status classes\<close>

text \<open>
  Truncating division by 100 gives 5 on exactly the statuses 500 to 599 and 2 on exactly
  200 to 299, also for negative status codes.
\<close>

lemma sdiv_100_nonneg: "0 \<le> s \<Longrightarrow> (s::int) sdiv 100 = s div 100"
  by (simp add: signed_divide_int_def sgn_if)

lemma sdiv_100_neg: "s < 0 \<Longrightarrow> (s::int) sdiv 100 = - ((- s) div 100)"
  by (simp add: signed_divide_int_def sgn_if)

lemma sdiv_100_eq_5: "(s::int) sdiv 100 = 5 \<longleftrightarrow> 500 \<le> s \<and> s \<le> 599"
proof (cases "0 \<le> s")
  case True
  then show ?thesis by (simp add: sdiv_100_nonneg) arith
next
  case False
  then have "s < 0" by simp
  then show ?thesis by (simp add: sdiv_100_neg)
qed

lemma sdiv_100_eq_2: "(s::int) sdiv 100 = 2 \<longleftrightarrow> 200 \<le> s \<and> s \<le> 299"
proof (cases "0 \<le> s")
  case True
  then show ?thesis by (simp add: sdiv_100_nonneg) arith
next
  case False
  then have "s < 0" by simp
  then show ?thesis by (simp add: sdiv_100_neg)
qed

subsection \<open>\<^verbatim>\<open>Authorize\<close>\<close>

text \<open>
  With a code, \<^verbatim>\<open>Authorize\<close> sends one request and decides on the answer by the
  ranges of the status code.
\<close>

lemma Authorize_posts:
  assumes "code \<noteq> []"
  shows "Authorize cfg rt auth code client =
     (case client_or_default rt client (token_url cfg) (code_form cfg code) of
        Inl (err, resp) \<Rightarrow> Inl (TransportError err)
      | Inr resp \<Rightarrow>
          if 500 \<le> StatusCode resp \<and> StatusCode resp \<le> 599 then Inl OAuthServerErr
          else if \<not> (200 \<le> StatusCode resp \<and> StatusCode resp \<le> 299) then
            Inl (classify (StatusCode resp)
                   (fst (Unmarshal_Error rt (Body resp) zero_StravaErrorResponse)))
          else
            (case Unmarshal_AuthorizationResponse rt (Body resp)
                    (zero_AuthorizationResponse (AthleteSummary_zero rt)) of
               (response, Some err) \<Rightarrow> Inl (UnmarshalError err)
             | (response, None) \<Rightarrow> Inr response),
      [(token_url cfg, code_form cfg code)])"
  using assms
  by (simp add: Authorize_def client_or_default_def token_url_def code_form_def Let_def
      sdiv_100_eq_5 sdiv_100_eq_2 classify_def split: list.split sum.split prod.split)

text \<open>
  C1, as it holds. When the transport delivers a response whose status is not in 200
  to 299 and the code is not empty, \<^verbatim>\<open>Authorize\<close> returns the error of the
  classification: a server error for 500 to 599 whatever the body; otherwise the body
  is decoded into a zero-valued error response, the error of the decoder is dropped,
  and the value the decoder left decides, whether the decoder reported an error or not:
  no error detail is a server error, a first detail on Application is invalid
  credentials, on RequestToken an invalid code, anything else the decoded error response
  itself. So a body that the decoder rejects yields a server error when no error detail
  has been filled in, and is classified by its first error detail otherwise.
\<close>

theorem Authorize_non_2xx:
  assumes "code \<noteq> []"
    and "client_or_default rt client (token_url cfg) (code_form cfg code) = Inr resp"
    and "\<not> (200 \<le> StatusCode resp \<and> StatusCode resp \<le> 299)"
  shows "fst (Authorize cfg rt auth code client) =
           Inl (classify (StatusCode resp)
                  (fst (Unmarshal_Error rt (Body resp) zero_StravaErrorResponse)))
       \<and> (Errors (fst (Unmarshal_Error rt (Body resp) zero_StravaErrorResponse)) = []
              \<longrightarrow> fst (Authorize cfg rt auth code client) = Inl OAuthServerErr)"
proof -
  have eq: "fst (Authorize cfg rt auth code client) =
           Inl (classify (StatusCode resp)
                  (fst (Unmarshal_Error rt (Body resp) zero_StravaErrorResponse)))"
    using assms by (simp add: Authorize_posts classify_def)
  have "classify (StatusCode resp) v = OAuthServerErr" if "Errors v = []" for v
    using that by (simp add: classify_def)
  with eq show ?thesis by simp
qed

theorem Authorize_non_2xx_witness:
  "fst (Authorize example_config (stub_runtime \<lparr>StatusCode = 401, Body = body_Application\<rparr>)
          example_auth ''abc'' None) = Inl OAuthInvalidCredentialsErr
   \<and> fst (Authorize example_config (stub_runtime \<lparr>StatusCode = 400, Body = body_RequestToken\<rparr>)
          example_auth ''abc'' None) = Inl OAuthInvalidCodeErr
   \<and> fst (Authorize example_config (stub_runtime \<lparr>StatusCode = 422, Body = body_Athlete\<rparr>)
          example_auth ''abc'' None)
       = Inl (ApiError \<lparr>Errors = [\<lparr>Code = [], Field = [], Resource = ''Athlete''\<rparr>],
                        Message = []\<rparr>)
   \<and> fst (Authorize example_config (stub_runtime \<lparr>StatusCode = 404, Body = ''<html>''\<rparr>)
          example_auth ''abc'' None) = Inl OAuthServerErr
   \<and> fst (Authorize example_config (stub_runtime \<lparr>StatusCode = 503, Body = body_Application\<rparr>)
          example_auth ''abc'' None) = Inl OAuthServerErr
   \<and> fst (Authorize example_config
            (stub_runtime \<lparr>StatusCode = 400, Body = body_Application_bad_message\<rparr>)
            example_auth ''abc'' None) = Inl OAuthInvalidCredentialsErr"
proof -
  have a: "fst (Authorize example_config
                  (stub_runtime \<lparr>StatusCode = 401, Body = body_Application\<rparr>)
                  example_auth ''abc'' None) = Inl OAuthInvalidCredentialsErr"
    using Authorize_non_2xx [of "''abc''"
        "stub_runtime \<lparr>StatusCode = 401, Body = body_Application\<rparr>"
        None example_config "\<lparr>StatusCode = 401, Body = body_Application\<rparr>" example_auth]
    by (simp add: fixture_defs classify_def)
  have b: "fst (Authorize example_config
                  (stub_runtime \<lparr>StatusCode = 400, Body = body_RequestToken\<rparr>)
                  example_auth ''abc'' None) = Inl OAuthInvalidCodeErr"
    using Authorize_non_2xx [of "''abc''"
        "stub_runtime \<lparr>StatusCode = 400, Body = body_RequestToken\<rparr>"
        None example_config "\<lparr>StatusCode = 400, Body = body_RequestToken\<rparr>" example_auth]
    by (simp add: fixture_defs classify_def)
  have c: "fst (Authorize example_config
                  (stub_runtime \<lparr>StatusCode = 422, Body = body_Athlete\<rparr>)
                  example_auth ''abc'' None)
       = Inl (ApiError \<lparr>Errors = [\<lparr>Code = [], Field = [], Resource = ''Athlete''\<rparr>],
                        Message = []\<rparr>)"
    using Authorize_non_2xx [of "''abc''"
        "stub_runtime \<lparr>StatusCode = 422, Body = body_Athlete\<rparr>"
        None example_config "\<lparr>StatusCode = 422, Body = body_Athlete\<rparr>" example_auth]
    by (simp add: fixture_defs classify_def)
  have d: "fst (Authorize example_config
                  (stub_runtime \<lparr>StatusCode = 404, Body = ''<html>''\<rparr>)
                  example_auth ''abc'' None) = Inl OAuthServerErr"
    using Authorize_non_2xx [of "''abc''"
        "stub_runtime \<lparr>StatusCode = 404, Body = ''<html>''\<rparr>"
        None example_config "\<lparr>StatusCode = 404, Body = ''<html>''\<rparr>" example_auth]
    by (simp add: fixture_defs classify_def)
  have e: "fst (Authorize example_config
                  (stub_runtime \<lparr>StatusCode = 503, Body = body_Application\<rparr>)
                  example_auth ''abc'' None) = Inl OAuthServerErr"
    using Authorize_non_2xx [of "''abc''"
        "stub_runtime \<lparr>StatusCode = 503, Body = body_Application\<rparr>"
        None example_config "\<lparr>StatusCode = 503, Body = body_Application\<rparr>" example_auth]
    by (simp add: fixture_defs classify_def)
  have f: "fst (Authorize example_config
                  (stub_runtime \<lparr>StatusCode = 400, Body = body_Application_bad_message\<rparr>)
                  example_auth ''abc'' None) = Inl OAuthInvalidCredentialsErr"
    using Authorize_non_2xx [of "''abc''"
        "stub_runtime \<lparr>StatusCode = 400, Body = body_Application_bad_message\<rparr>"
        None example_config "\<lparr>StatusCode = 400, Body = body_Application_bad_message\<rparr>"
        example_auth]
    by (simp add: fixture_defs classify_def)
  from a b c d e f show ?thesis by simp
qed

text \<open>
  C1 as stated fails: on the status 400 with a body whose error list names the
  resource Application and whose \<^verbatim>\<open>message\<close> is a number, the decoder reports an error,
  so the body fails to parse, and yet \<^verbatim>\<open>Authorize\<close> returns
  \<^verbatim>\<open>OAuthInvalidCredentialsErr\<close>, where the classification of an empty error list is
  \<^verbatim>\<open>OAuthServerErr\<close>.
\<close>

theorem Authorize_decode_error_counterexample:
  "snd (Unmarshal_Error
          (stub_runtime \<lparr>StatusCode = 400, Body = body_Application_bad_message\<rparr>)
          body_Application_bad_message zero_StravaErrorResponse)
     = Some ''json: cannot unmarshal number into Go struct field of type string''
   \<and> fst (Authorize example_config
            (stub_runtime \<lparr>StatusCode = 400, Body = body_Application_bad_message\<rparr>)
            example_auth ''abc'' None) = Inl OAuthInvalidCredentialsErr
   \<and> classify 400 (zero_StravaErrorResponse\<lparr>Errors := []\<rparr>) = OAuthServerErr"
  by (simp add: Authorize_posts fixture_defs classify_def)

text \<open>
  C2. When the transport delivers a response whose status is in 200 to 299 and the
  code is not empty, \<^verbatim>\<open>Authorize\<close> decodes the body into a zero-valued
  \<^verbatim>\<open>AuthorizationResponse\<close>: it returns the decoded value as the decoder left it, every
  field included, when the decoder reports no error, and the error of the decoder
  otherwise.
\<close>

theorem Authorize_2xx:
  assumes "code \<noteq> []"
    and "client_or_default rt client (token_url cfg) (code_form cfg code) = Inr resp"
    and "200 \<le> StatusCode resp \<and> StatusCode resp \<le> 299"
  shows "fst (Authorize cfg rt auth code client) =
           (case Unmarshal_AuthorizationResponse rt (Body resp)
                   (zero_AuthorizationResponse (AthleteSummary_zero rt)) of
              (decoded, None) \<Rightarrow> Inr decoded
            | (decoded, Some err) \<Rightarrow> Inl (UnmarshalError err))"
  using assms by (simp add: Authorize_posts)

theorem Authorize_2xx_witness:
  "fst (Authorize example_config (stub_runtime \<lparr>StatusCode = 200, Body = body_token\<rparr>)
          example_auth ''abc'' None)
     = Inr \<lparr>AccessToken = ''abc'', RefreshToken = ''def'', ExpiresAt = 1700000000,
            ExpiresIn = 21600, Athlete = (), State = []\<rparr>
   \<and> fst (Authorize example_config (stub_runtime \<lparr>StatusCode = 201, Body = ''{''\<rparr>)
          example_auth ''abc'' None)
     = Inl (UnmarshalError ''unexpected end of JSON input'')"
proof -
  have a: "fst (Authorize example_config
                  (stub_runtime \<lparr>StatusCode = 200, Body = body_token\<rparr>)
                  example_auth ''abc'' None)
     = Inr \<lparr>AccessToken = ''abc'', RefreshToken = ''def'', ExpiresAt = 1700000000,
            ExpiresIn = 21600, Athlete = (), State = []\<rparr>"
    using Authorize_2xx [of "''abc''" "stub_runtime \<lparr>StatusCode = 200, Body = body_token\<rparr>"
        None example_config "\<lparr>StatusCode = 200, Body = body_token\<rparr>" example_auth]
    by (simp add: fixture_defs)
  have b: "fst (Authorize example_config (stub_runtime \<lparr>StatusCode = 201, Body = ''{''\<rparr>)
                  example_auth ''abc'' None)
     = Inl (UnmarshalError ''unexpected end of JSON input'')"
    using Authorize_2xx [of "''abc''" "stub_runtime \<lparr>StatusCode = 201, Body = ''{''\<rparr>"
        None example_config "\<lparr>StatusCode = 201, Body = ''{''\<rparr>" example_auth]
    by (simp add: fixture_defs)
  from a b show ?thesis by simp
qed

text \<open>
  C3. With the empty string as code, \<^verbatim>\<open>Authorize\<close> returns \<^verbatim>\<open>OAuthInvalidCodeErr\<close>
  and sends no request, whatever client is passed, nil included.
\<close>

theorem Authorize_empty_code:
  "Authorize cfg rt auth [] client = (Inl OAuthInvalidCodeErr, [])"
  by (simp add: Authorize_def)

subsection \<open>The callback handler\<close>

text \<open>
  C5. For a request whose form value \<^verbatim>\<open>error\<close> is \<^verbatim>\<open>access_denied\<close>, the handler
  ends with the call of the failure continuation on \<^verbatim>\<open>OAuthAuthorizationDeniedErr\<close>,
  whatever the success continuation is, and no request has been sent.
\<close>

theorem HandlerFunc_access_denied:
  assumes "FormValue r ''error'' = ''access_denied''"
  shows "HandlerFunc cfg rt auth success failure w r
           = (failure OAuthAuthorizationDeniedErr w r, [])"
  using assms by (simp add: HandlerFunc_def)

theorem HandlerFunc_access_denied_witness:
  "HandlerFunc example_config (stub_runtime \<lparr>StatusCode = 200, Body = body_token\<rparr>)
     example_auth (\<lambda>resp w r. Inr resp) (\<lambda>err w r. Inl err) ()
     \<lparr>Form = [''error'' \<mapsto> [''access_denied''], ''code'' \<mapsto> [''abc'']]\<rparr>
   = (Inl OAuthAuthorizationDeniedErr, [])"
  using HandlerFunc_access_denied
    [of "\<lparr>Form = [''error'' \<mapsto> [''access_denied''], ''code'' \<mapsto> [''abc'']]\<rparr>"
      example_config "stub_runtime \<lparr>StatusCode = 200, Body = body_token\<rparr>" example_auth
      "\<lambda>resp w r. Inr resp" "\<lambda>err w r. Inl err" "()"]
  by (simp add: FormValue_def)

text \<open>
  A successful \<^verbatim>\<open>Authorize\<close> has sent its one request, got a response with a status of
  200 to 299, and returns what the decoder made of the zero-valued response.
\<close>

lemma Authorize_Inr_D:
  assumes "Authorize cfg rt auth code client = (Inr v, sent)"
  shows "code \<noteq> [] \<and> sent = [(token_url cfg, code_form cfg code)]
       \<and> (\<exists>hr. client_or_default rt client (token_url cfg) (code_form cfg code) = Inr hr
              \<and> 200 \<le> StatusCode hr \<and> StatusCode hr \<le> 299
              \<and> Unmarshal_AuthorizationResponse rt (Body hr)
                    (zero_AuthorizationResponse (AthleteSummary_zero rt)) = (v, None))"
proof -
  have ne: "code \<noteq> []"
    using assms by (auto simp: Authorize_def)
  from assms show ?thesis
    unfolding Authorize_posts [OF ne]
    by (auto simp: ne split: sum.splits if_splits prod.splits option.splits)
qed

text \<open>
  C6. For a request that is not a denial and whose exchange succeeds with the response
  \<open>resp\<close>, the handler ends with the call of the success continuation on \<open>resp\<close> with
  \<^verbatim>\<open>State\<close> set to the form value \<^verbatim>\<open>state\<close> of the request: every other field is the
  one \<^verbatim>\<open>Authorize\<close> returned. \<^verbatim>\<open>Authorize\<close> itself does not set \<^verbatim>\<open>State\<close>: its response
  is the decoder's value, decoded into a response whose \<^verbatim>\<open>State\<close> is empty.
\<close>

theorem HandlerFunc_success_state:
  assumes "FormValue r ''error'' \<noteq> ''access_denied''"
    and "Authorize cfg rt auth (FormValue r ''code'') (handler_client rt auth r)
           = (Inr resp, sent)"
  shows "HandlerFunc cfg rt auth success failure w r
           = (success (resp\<lparr>State := FormValue r ''state''\<rparr>) w r, sent)
       \<and> State (resp\<lparr>State := FormValue r ''state''\<rparr>) = FormValue r ''state''
       \<and> AccessToken (resp\<lparr>State := FormValue r ''state''\<rparr>) = AccessToken resp
       \<and> RefreshToken (resp\<lparr>State := FormValue r ''state''\<rparr>) = RefreshToken resp
       \<and> ExpiresAt (resp\<lparr>State := FormValue r ''state''\<rparr>) = ExpiresAt resp
       \<and> ExpiresIn (resp\<lparr>State := FormValue r ''state''\<rparr>) = ExpiresIn resp
       \<and> Athlete (resp\<lparr>State := FormValue r ''state''\<rparr>) = Athlete resp
       \<and> (\<exists>hr. client_or_default rt (handler_client rt auth r) (token_url cfg)
                  (code_form cfg (FormValue r ''code'')) = Inr hr
              \<and> Unmarshal_AuthorizationResponse rt (Body hr)
                    (zero_AuthorizationResponse (AthleteSummary_zero rt)) = (resp, None))
       \<and> State (zero_AuthorizationResponse (AthleteSummary_zero rt)) = []"
proof -
  have h: "HandlerFunc cfg rt auth success failure w r
           = (success (resp\<lparr>State := FormValue r ''state''\<rparr>) w r, sent)"
    using assms by (simp add: HandlerFunc_def handler_client_def Let_def)
  have d: "\<exists>hr. client_or_default rt (handler_client rt auth r) (token_url cfg)
                  (code_form cfg (FormValue r ''code'')) = Inr hr
              \<and> Unmarshal_AuthorizationResponse rt (Body hr)
                    (zero_AuthorizationResponse (AthleteSummary_zero rt)) = (resp, None)"
    using Authorize_Inr_D [OF assms(2)] by blast
  from h d show ?thesis by (simp add: zero_AuthorizationResponse_def)
qed

theorem HandlerFunc_success_state_witness:
  "HandlerFunc example_config (stub_runtime \<lparr>StatusCode = 200, Body = body_token\<rparr>)
     example_auth (\<lambda>resp w r. Inr resp) (\<lambda>err w r. Inl err) () example_request
   = (Inr \<lparr>AccessToken = ''abc'', RefreshToken = ''def'', ExpiresAt = 1700000000,
            ExpiresIn = 21600, Athlete = (), State = ''abc123''\<rparr>,
      [(token_url example_config, code_form example_config ''abc'')])"
proof -
  have a: "Authorize example_config (stub_runtime \<lparr>StatusCode = 200, Body = body_token\<rparr>)
             example_auth (FormValue example_request ''code'')
             (handler_client (stub_runtime \<lparr>StatusCode = 200, Body = body_token\<rparr>)
                example_auth example_request)
     = (Inr \<lparr>AccessToken = ''abc'', RefreshToken = ''def'', ExpiresAt = 1700000000,
            ExpiresIn = 21600, Athlete = (), State = []\<rparr>,
        [(token_url example_config, code_form example_config ''abc'')])"
    by (simp add: Authorize_posts FormValue_def example_request_def handler_client_def
        fixture_defs)
  have e: "FormValue example_request ''error'' \<noteq> ''access_denied''"
    by (simp add: FormValue_def example_request_def)
  show ?thesis
    using HandlerFunc_success_state [OF e a, of "\<lambda>resp w r. Inr resp" "\<lambda>err w r. Inl err" "()"]
    by (simp add: FormValue_def example_request_def)
qed

subsection \<open>The authorization URL\<close>

text \<open>
  C7. The package-level \<^verbatim>\<open>AuthorizationURL\<close> fails, with an error made by
  \<^verbatim>\<open>errors.New\<close>, exactly when the client id is zero or negative, or the callback URL
  is empty, or the scope is empty. On every other input it returns the URL of
  \<^verbatim>\<open>/oauth/authorize\<close> with the query parameters \<^verbatim>\<open>client_id\<close>,
  \<^verbatim>\<open>response_type=code\<close>, \<^verbatim>\<open>redirect_uri\<close> and \<^verbatim>\<open>scope\<close>. It is a function of the
  configuration and its two arguments only: nothing is sent.
\<close>

theorem AuthorizationURL_result:
  "(if ClientId cfg \<le> 0 \<or> callbackURL = [] \<or> scope = []
    then \<exists>msg. AuthorizationURL cfg callbackURL scope = Inl (errors_New msg)
    else AuthorizationURL cfg callbackURL scope =
           Inr (basePath cfg @ ''/oauth/authorize?client_id='' @ fmt_d (ClientId cfg)
                  @ ''&response_type=code&redirect_uri='' @ callbackURL
                  @ ''&scope='' @ scope))"
  by (auto simp: AuthorizationURL_def Sprintf_authorize_def)

lemma fmt_d_1234: "fmt_d 1234 = ''1234''"
  by code_simp

theorem AuthorizationURL_result_witness:
  "AuthorizationURL example_config ''http://localhost/cb'' ''public''
     = Inr ''https://www.strava.com/oauth/authorize?client_id=1234&response_type=code&redirect_uri=http://localhost/cb&scope=public''
   \<and> AuthorizationURL (example_config\<lparr>ClientId := 0\<rparr>) ''http://localhost/cb'' ''public''
     = Inl (errors_New ''clientId is empty'')
   \<and> AuthorizationURL (example_config\<lparr>ClientId := - 7\<rparr>) ''http://localhost/cb'' ''public''
     = Inl (errors_New ''clientId is empty'')
   \<and> AuthorizationURL example_config [] ''public'' = Inl (errors_New ''callbackURL is empty'')
   \<and> AuthorizationURL example_config ''http://localhost/cb'' []
     = Inl (errors_New ''scope is empty'')"
proof -
  have a: "AuthorizationURL example_config ''http://localhost/cb'' ''public''
     = Inr ''https://www.strava.com/oauth/authorize?client_id=1234&response_type=code&redirect_uri=http://localhost/cb&scope=public''"
    using AuthorizationURL_result [of example_config "''http://localhost/cb''" "''public''"]
    by (simp add: example_config_def fmt_d_1234)
  have b: "\<exists>msg. AuthorizationURL (example_config\<lparr>ClientId := 0\<rparr>) ''http://localhost/cb''
               ''public'' = Inl (errors_New msg)"
    using AuthorizationURL_result [of "example_config\<lparr>ClientId := 0\<rparr>"
        "''http://localhost/cb''" "''public''"]
    by (simp add: example_config_def)
  have c: "\<exists>msg. AuthorizationURL (example_config\<lparr>ClientId := - 7\<rparr>) ''http://localhost/cb''
               ''public'' = Inl (errors_New msg)"
    using AuthorizationURL_result [of "example_config\<lparr>ClientId := - 7\<rparr>"
        "''http://localhost/cb''" "''public''"]
    by (simp add: example_config_def)
  have d: "\<exists>msg. AuthorizationURL example_config [] ''public'' = Inl (errors_New msg)"
    using AuthorizationURL_result [of example_config "[]" "''public''"] by simp
  have e: "\<exists>msg. AuthorizationURL example_config ''http://localhost/cb'' []
               = Inl (errors_New msg)"
    using AuthorizationURL_result [of example_config "''http://localhost/cb''" "[]"] by simp
  from a b c d e show ?thesis
    by (simp add: AuthorizationURL_def example_config_def)
qed

text \<open>
  C10. The method \<^verbatim>\<open>AuthorizationURL\<close> of the authenticator checks nothing and cannot
  fail: for every client id, callback URL, scope and state it returns the formatted
  URL, followed by \<^verbatim>\<open>&state=\<close> and the state exactly when the state is not empty, and
  by \<^verbatim>\<open>&approval_prompt=force\<close> exactly when \<open>force\<close> is set.
\<close>

theorem OAuthAuthenticator_AuthorizationURL_total:
  "OAuthAuthenticator_AuthorizationURL cfg auth state scope force =
     basePath cfg @ ''/oauth/authorize?client_id='' @ fmt_d (ClientId cfg)
       @ ''&response_type=code&redirect_uri='' @ CallbackURL auth @ ''&scope='' @ scope
       @ (if state = [] then [] else ''&state='' @ state)
       @ (if force then ''&approval_prompt=force'' else [])"
  by (simp add: OAuthAuthenticator_AuthorizationURL_def Sprintf_authorize_def)

theorem OAuthAuthenticator_AuthorizationURL_total_witness:
  "OAuthAuthenticator_AuthorizationURL (example_config\<lparr>ClientId := - 5\<rparr>)
      \<lparr>CallbackURL = [], RequestClientGenerator = None\<rparr> ''xyz'' [] True
     = ''https://www.strava.com/oauth/authorize?client_id=-5&response_type=code&redirect_uri=&scope=&state=xyz&approval_prompt=force''
   \<and> OAuthAuthenticator_AuthorizationURL (example_config\<lparr>ClientId := 0\<rparr>)
      example_auth [] ''public'' False
     = ''https://www.strava.com/oauth/authorize?client_id=0&response_type=code&redirect_uri=http://localhost:8080/exchange_token&scope=public''"
proof -
  have f: "fmt_d (- 5) = ''-5''" "fmt_d 0 = ''0''" by code_simp+
  show ?thesis
    using OAuthAuthenticator_AuthorizationURL_total [of "example_config\<lparr>ClientId := - 5\<rparr>"
        "\<lparr>CallbackURL = [], RequestClientGenerator = None\<rparr>" "''xyz''" "[]" True]
      OAuthAuthenticator_AuthorizationURL_total [of "example_config\<lparr>ClientId := 0\<rparr>"
        example_auth "[]" "''public''" False]
    by (simp add: example_config_def example_auth_def f)
qed

subsection \<open>Occurrences in the authorization URL\<close>

text \<open>
  A pattern cannot run across a character it does not contain, so such a character
  splits the count of the occurrences.
\<close>

lemma prefix_before_sep:
  assumes "c \<notin> set pat"
  shows "prefix pat (xs @ c # ys) \<longleftrightarrow> prefix pat xs"
proof
  assume "prefix pat (xs @ c # ys)"
  then consider "prefix pat xs" | us where "pat = xs @ us" "prefix us (c # ys)"
    by (auto simp: prefix_append)
  then show "prefix pat xs"
  proof cases
    case 1
    then show ?thesis .
  next
    case 2
    with assms have "us = []"
      by (cases us) auto
    with 2 show ?thesis by simp
  qed
next
  assume "prefix pat xs"
  then show "prefix pat (xs @ c # ys)" by (rule prefix_prefix)
qed

lemma occurrences_sep:
  assumes "pat \<noteq> []" and "c \<notin> set pat"
  shows "occurrences pat (xs @ c # ys) = occurrences pat xs + occurrences pat ys"
proof (induction xs)
  case Nil
  from assms have "\<not> prefix pat (c # ys)"
    by (cases pat) auto
  with assms show ?case by simp
next
  case (Cons x xs)
  have "prefix pat (x # xs @ c # ys) \<longleftrightarrow> prefix pat (x # xs)"
    using prefix_before_sep [OF assms(2), of "x # xs" ys] by simp
  with Cons show ?case by simp
qed

lemma occurrences_zero:
  assumes "\<not> set pat \<subseteq> set s"
  shows "occurrences pat s = 0"
  using assms
proof (induction s)
  case Nil
  then show ?case by auto
next
  case (Cons c cs)
  have "\<not> prefix pat (c # cs)"
    using Cons.prems set_mono_prefix by blast
  moreover have "\<not> set pat \<subseteq> set cs"
    using Cons.prems by auto
  ultimately show ?case using Cons.IH by simp
qed

lemma occurrences_pos_iff: "0 < occurrences pat s \<longleftrightarrow> sublist pat s"
  by (induction s) (auto simp: sublist_Cons_right)

text \<open>The decimal form of an integer has digits and at most a sign.\<close>

lemma digit_char_in: "d < 10 \<Longrightarrow> digit_char d \<in> set ''0123456789''"
  unfolding digit_char_def by (rule nth_mem) simp

lemma set_fmt_nat: "set (fmt_nat n) \<subseteq> set ''0123456789''"
proof (induction n rule: fmt_nat.induct)
  case (1 n)
  show ?case
  proof (cases "n < 10")
    case True
    then show ?thesis
      using digit_char_in [of n] by (subst fmt_nat.simps) simp
  next
    case False
    have "digit_char (n mod 10) \<in> set ''0123456789''"
      by (rule digit_char_in) simp
    with False 1 show ?thesis
      by (subst fmt_nat.simps) simp
  qed
qed

lemma set_fmt_d: "set (fmt_d i) \<subseteq> set ''-0123456789''"
proof (cases "i < 0")
  case True
  then have "fmt_d i = CHR ''-'' # fmt_nat (nat (- i))"
    by (simp add: fmt_d_def)
  moreover have "set (fmt_nat (nat (- i))) \<subseteq> set ''0123456789''"
    by (rule set_fmt_nat)
  ultimately show ?thesis
    by (metis insert_mono list.simps(15))
next
  case False
  then have "fmt_d i = fmt_nat (nat i)"
    by (simp add: fmt_d_def)
  moreover have "set (fmt_nat (nat i)) \<subseteq> set ''0123456789''"
    by (rule set_fmt_nat)
  ultimately show ?thesis
    by (metis set_subset_Cons subset_trans)
qed

lemma occurrences_fmt_d:
  assumes "\<not> set pat \<subseteq> set ''-0123456789''"
  shows "occurrences pat (fmt_d i) = 0"
  using assms set_fmt_d [of i] by (intro occurrences_zero) blast

text \<open>
  The formatted URL is cut at its separators: a pattern without separator that is not
  a number occurs in the base path, the fixed words, the callback URL or the scope.
\<close>

lemma occurrences_Sprintf_authorize:
  assumes "pat \<noteq> []"
    and "CHR ''/'' \<notin> set pat" and "CHR ''?'' \<notin> set pat"
    and "CHR ''='' \<notin> set pat" and "CHR ''&'' \<notin> set pat"
    and "\<not> set pat \<subseteq> set ''-0123456789''"
  shows "occurrences pat (Sprintf_authorize base cid callback scope) =
           occurrences pat base + occurrences pat ''oauth'' + occurrences pat ''authorize''
         + occurrences pat ''client_id'' + occurrences pat ''response_type''
         + occurrences pat ''code'' + occurrences pat ''redirect_uri''
         + occurrences pat callback + occurrences pat ''scope'' + occurrences pat scope"
proof -
  define oauth authorize client_id response_type code' redirect_uri scope'
    where "oauth = ''oauth''" and "authorize = ''authorize''" and "client_id = ''client_id''"
      and "response_type = ''response_type''" and "code' = ''code''"
      and "redirect_uri = ''redirect_uri''" and "scope' = ''scope''"
  have shape: "Sprintf_authorize base cid callback scope =
      base @ CHR ''/'' # (oauth @ CHR ''/'' # (authorize @ CHR ''?'' # (client_id
        @ CHR ''='' # (fmt_d cid @ CHR ''&'' # (response_type @ CHR ''='' # (code'
        @ CHR ''&'' # (redirect_uri @ CHR ''='' # (callback @ CHR ''&'' # (scope'
        @ CHR ''='' # scope)))))))))"
    by (simp add: Sprintf_authorize_def oauth_def authorize_def client_id_def
        response_type_def code'_def redirect_uri_def scope'_def)
  have sep: "occurrences pat (xs @ c # ys) = occurrences pat xs + occurrences pat ys"
    if "c \<notin> set pat" for c xs ys
    using assms(1) that by (rule occurrences_sep)
  have "occurrences pat (Sprintf_authorize base cid callback scope) =
           occurrences pat base + (occurrences pat oauth + (occurrences pat authorize
         + (occurrences pat client_id + (occurrences pat (fmt_d cid)
         + (occurrences pat response_type + (occurrences pat code'
         + (occurrences pat redirect_uri + (occurrences pat callback
         + (occurrences pat scope' + occurrences pat scope)))))))))"
    unfolding shape
    by (simp only: sep [OF assms(2)] sep [OF assms(3)] sep [OF assms(4)] sep [OF assms(5)])
  also have "occurrences pat (fmt_d cid) = 0"
    using assms(6) by (rule occurrences_fmt_d)
  finally show ?thesis
    by (simp only: oauth_def authorize_def client_id_def response_type_def code'_def
        redirect_uri_def scope'_def add_0 add.assoc)
qed

lemma occurrences_client_id:
  "occurrences ''client_id'' (Sprintf_authorize base cid callback scope) =
     1 + (occurrences ''client_id'' base + occurrences ''client_id'' callback
          + occurrences ''client_id'' scope)"
  by (subst occurrences_Sprintf_authorize) simp_all

lemma occurrences_redirect_uri:
  "occurrences ''redirect_uri'' (Sprintf_authorize base cid callback scope) =
     1 + (occurrences ''redirect_uri'' base + occurrences ''redirect_uri'' callback
          + occurrences ''redirect_uri'' scope)"
  by (subst occurrences_Sprintf_authorize) simp_all

lemma occurrences_scope:
  "occurrences ''scope'' (Sprintf_authorize base cid callback scope) =
     1 + (occurrences ''scope'' base + occurrences ''scope'' callback
          + occurrences ''scope'' scope)"
  by (subst occurrences_Sprintf_authorize) simp_all

lemma occurrences_state:
  "occurrences ''state'' (Sprintf_authorize base cid callback scope) =
     occurrences ''state'' base + occurrences ''state'' callback + occurrences ''state'' scope"
  by (subst occurrences_Sprintf_authorize) simp_all

lemma occurrences_approval_prompt:
  "occurrences ''approval_prompt'' (Sprintf_authorize base cid callback scope) =
     occurrences ''approval_prompt'' base + occurrences ''approval_prompt'' callback
     + occurrences ''approval_prompt'' scope"
  by (subst occurrences_Sprintf_authorize) simp_all

lemma OAuthAuthenticator_AuthorizationURL_plain:
  "OAuthAuthenticator_AuthorizationURL cfg auth [] scope False
     = Sprintf_authorize (basePath cfg) (ClientId cfg) (CallbackURL auth) scope"
  by (simp add: OAuthAuthenticator_AuthorizationURL_def)

text \<open>
  The URL of the method is the formatted URL, followed by the state and the forced
  approval when they are requested; the separators cut it in the same way.
\<close>

lemma occurrences_method_url:
  assumes "pat \<noteq> []"
    and "CHR ''/'' \<notin> set pat" and "CHR ''?'' \<notin> set pat"
    and "CHR ''='' \<notin> set pat" and "CHR ''&'' \<notin> set pat"
    and "\<not> set pat \<subseteq> set ''-0123456789''"
  shows "occurrences pat (OAuthAuthenticator_AuthorizationURL cfg auth state scope force) =
           occurrences pat (Sprintf_authorize (basePath cfg) (ClientId cfg) (CallbackURL auth) scope)
         + (if state = [] then 0 else occurrences pat ''state'' + occurrences pat state)
         + (if force then occurrences pat ''approval_prompt'' + occurrences pat ''force'' else 0)"
proof -
  define S where "S = Sprintf_authorize (basePath cfg) (ClientId cfg) (CallbackURL auth) scope"
  define state' approval_prompt force'
    where "state' = ''state''" and "approval_prompt = ''approval_prompt''"
      and "force' = ''force''"
  define P where "P = (if state \<noteq> [] then S @ CHR ''&'' # (state' @ CHR ''='' # state) else S)"
  have sep: "occurrences pat (xs @ c # ys) = occurrences pat xs + occurrences pat ys"
    if "c \<notin> set pat" for c xs ys
    using assms(1) that by (rule occurrences_sep)
  have url: "OAuthAuthenticator_AuthorizationURL cfg auth state scope force =
      (if force then P @ CHR ''&'' # (approval_prompt @ CHR ''='' # force') else P)"
    by (simp add: OAuthAuthenticator_AuthorizationURL_def S_def P_def state'_def
        approval_prompt_def force'_def Let_def)
  have P: "occurrences pat P = occurrences pat S
             + (if state = [] then 0 else occurrences pat state' + occurrences pat state)"
    unfolding P_def by (simp only: sep [OF assms(4)] sep [OF assms(5)] if_not_P if_P
        split: if_split) simp
  have "occurrences pat (OAuthAuthenticator_AuthorizationURL cfg auth state scope force) =
      occurrences pat P
        + (if force then occurrences pat approval_prompt + occurrences pat force' else 0)"
    unfolding url by (cases force) (simp_all only: sep [OF assms(4)] sep [OF assms(5)]
        if_True if_False add_0_right)
  then show ?thesis
    unfolding P S_def state'_def approval_prompt_def force'_def .
qed

lemma occurrences_method_client_id:
  "occurrences ''client_id'' (OAuthAuthenticator_AuthorizationURL cfg auth state scope force) =
     1 + (occurrences ''client_id'' (basePath cfg) + occurrences ''client_id'' (CallbackURL auth)
          + occurrences ''client_id'' scope + occurrences ''client_id'' state)"
  by (cases "state = []") (simp_all add: occurrences_method_url occurrences_client_id)

lemma occurrences_method_redirect_uri:
  "occurrences ''redirect_uri'' (OAuthAuthenticator_AuthorizationURL cfg auth state scope force) =
     1 + (occurrences ''redirect_uri'' (basePath cfg)
          + occurrences ''redirect_uri'' (CallbackURL auth)
          + occurrences ''redirect_uri'' scope + occurrences ''redirect_uri'' state)"
  by (cases "state = []") (simp_all add: occurrences_method_url occurrences_redirect_uri)

lemma occurrences_method_scope:
  "occurrences ''scope'' (OAuthAuthenticator_AuthorizationURL cfg auth state scope force) =
     1 + (occurrences ''scope'' (basePath cfg) + occurrences ''scope'' (CallbackURL auth)
          + occurrences ''scope'' scope + occurrences ''scope'' state)"
  by (cases "state = []") (simp_all add: occurrences_method_url occurrences_scope)

lemma occurrences_method_state:
  "occurrences ''state'' (OAuthAuthenticator_AuthorizationURL cfg auth state scope force) =
     (if state = [] then 0 else 1)
     + (occurrences ''state'' (basePath cfg) + occurrences ''state'' (CallbackURL auth)
        + occurrences ''state'' scope + occurrences ''state'' state)"
  by (cases "state = []") (simp_all add: occurrences_method_url occurrences_state)

lemma occurrences_method_approval_prompt:
  "occurrences ''approval_prompt''
      (OAuthAuthenticator_AuthorizationURL cfg auth state scope force) =
     (if force then 1 else 0)
     + (occurrences ''approval_prompt'' (basePath cfg)
        + occurrences ''approval_prompt'' (CallbackURL auth)
        + occurrences ''approval_prompt'' scope + occurrences ''approval_prompt'' state)"
  by (cases "state = []") (simp_all add: occurrences_method_url occurrences_approval_prompt)

text \<open>
  C9, as it holds. The callback URL, the scope and the state are copied into the URL as
  they are. For a positive client id, a callback URL and a scope that are not empty, and
  every state and every force flag, the URL of the method contains \<^verbatim>\<open>client_id\<close>,
  \<^verbatim>\<open>redirect_uri\<close> and \<^verbatim>\<open>scope\<close> each once more than the base path, the callback URL,
  the scope and the state contain them together; it contains \<^verbatim>\<open>state\<close> once more than
  these four contain it when a state is requested and as often as they contain it when
  none is, and \<^verbatim>\<open>approval_prompt\<close> once more than they contain it when the approval is
  forced and as often as they contain it when it is not. The package-level function
  returns the URL of the method without state and without forced approval. So when
  none of the four contains any of the five names, the first three occur exactly once
  for every state and force flag, \<^verbatim>\<open>state\<close> occurs once when requested and not at all
  otherwise, and \<^verbatim>\<open>approval_prompt\<close> once when forced and not at all otherwise.
\<close>

theorem AuthorizationURL_occurrences:
  assumes "0 < ClientId cfg" and "CallbackURL auth \<noteq> []" and "scope \<noteq> []"
  shows "AuthorizationURL cfg (CallbackURL auth) scope
           = Inr (OAuthAuthenticator_AuthorizationURL cfg auth [] scope False)
       \<and> occurrences ''client_id''
             (OAuthAuthenticator_AuthorizationURL cfg auth state scope force)
           = 1 + (occurrences ''client_id'' (basePath cfg)
                  + occurrences ''client_id'' (CallbackURL auth)
                  + occurrences ''client_id'' scope
                  + occurrences ''client_id'' state)
       \<and> occurrences ''redirect_uri''
             (OAuthAuthenticator_AuthorizationURL cfg auth state scope force)
           = 1 + (occurrences ''redirect_uri'' (basePath cfg)
                  + occurrences ''redirect_uri'' (CallbackURL auth)
                  + occurrences ''redirect_uri'' scope
                  + occurrences ''redirect_uri'' state)
       \<and> occurrences ''scope''
             (OAuthAuthenticator_AuthorizationURL cfg auth state scope force)
           = 1 + (occurrences ''scope'' (basePath cfg)
                  + occurrences ''scope'' (CallbackURL auth)
                  + occurrences ''scope'' scope
                  + occurrences ''scope'' state)
       \<and> occurrences ''state''
             (OAuthAuthenticator_AuthorizationURL cfg auth state scope force)
           = (if state = [] then 0 else 1)
             + (occurrences ''state'' (basePath cfg)
                + occurrences ''state'' (CallbackURL auth)
                + occurrences ''state'' scope
                + occurrences ''state'' state)
       \<and> occurrences ''approval_prompt''
             (OAuthAuthenticator_AuthorizationURL cfg auth state scope force)
           = (if force then 1 else 0)
             + (occurrences ''approval_prompt'' (basePath cfg)
                + occurrences ''approval_prompt'' (CallbackURL auth)
                + occurrences ''approval_prompt'' scope
                + occurrences ''approval_prompt'' state)
       \<and> (none_of_the_parameter_names (basePath cfg)
            \<and> none_of_the_parameter_names (CallbackURL auth)
            \<and> none_of_the_parameter_names scope
            \<and> none_of_the_parameter_names state
          \<longrightarrow> occurrences ''client_id''
                  (OAuthAuthenticator_AuthorizationURL cfg auth state scope force) = 1
            \<and> occurrences ''redirect_uri''
                  (OAuthAuthenticator_AuthorizationURL cfg auth state scope force) = 1
            \<and> occurrences ''scope''
                  (OAuthAuthenticator_AuthorizationURL cfg auth state scope force) = 1
            \<and> occurrences ''state''
                  (OAuthAuthenticator_AuthorizationURL cfg auth state scope force)
                = (if state = [] then 0 else 1)
            \<and> occurrences ''approval_prompt''
                  (OAuthAuthenticator_AuthorizationURL cfg auth state scope force)
                = (if force then 1 else 0))"
proof -
  have "AuthorizationURL cfg (CallbackURL auth) scope
           = Inr (OAuthAuthenticator_AuthorizationURL cfg auth [] scope False)"
    using assms by (simp add: AuthorizationURL_def OAuthAuthenticator_AuthorizationURL_plain)
  then show ?thesis
    unfolding none_of_the_parameter_names_def
    by (simp only: occurrences_method_client_id occurrences_method_redirect_uri
        occurrences_method_scope occurrences_method_state
        occurrences_method_approval_prompt) simp
qed

theorem AuthorizationURL_occurrences_witness:
  "AuthorizationURL example_config (CallbackURL example_auth) ''public''
     = Inr (OAuthAuthenticator_AuthorizationURL example_config example_auth [] ''public'' False)
   \<and> occurrences ''client_id''
        (OAuthAuthenticator_AuthorizationURL example_config example_auth [] ''public'' False) = 1
   \<and> occurrences ''redirect_uri''
        (OAuthAuthenticator_AuthorizationURL example_config example_auth [] ''public'' False) = 1
   \<and> occurrences ''scope''
        (OAuthAuthenticator_AuthorizationURL example_config example_auth [] ''public'' False) = 1
   \<and> occurrences ''state''
        (OAuthAuthenticator_AuthorizationURL example_config example_auth [] ''public'' False) = 0
   \<and> occurrences ''approval_prompt''
        (OAuthAuthenticator_AuthorizationURL example_config example_auth [] ''public'' False) = 0
   \<and> occurrences ''client_id''
        (OAuthAuthenticator_AuthorizationURL example_config example_auth ''xyz'' ''public'' True) = 1
   \<and> occurrences ''redirect_uri''
        (OAuthAuthenticator_AuthorizationURL example_config example_auth ''xyz'' ''public'' True) = 1
   \<and> occurrences ''scope''
        (OAuthAuthenticator_AuthorizationURL example_config example_auth ''xyz'' ''public'' True) = 1
   \<and> occurrences ''state''
        (OAuthAuthenticator_AuthorizationURL example_config example_auth ''xyz'' ''public'' True) = 1
   \<and> occurrences ''approval_prompt''
        (OAuthAuthenticator_AuthorizationURL example_config example_auth ''xyz'' ''public'' True) = 1"
proof -
  have pos: "0 < ClientId example_config" and cb: "CallbackURL example_auth \<noteq> []"
    and sc: "''public'' \<noteq> []"
    by (simp_all add: example_config_def example_auth_def)
  have base: "none_of_the_parameter_names (basePath example_config)"
    by (simp add: none_of_the_parameter_names_def example_config_def)
  have call: "none_of_the_parameter_names (CallbackURL example_auth)"
    by (simp add: none_of_the_parameter_names_def example_auth_def)
  have scop: "none_of_the_parameter_names ''public''"
    by (simp add: none_of_the_parameter_names_def)
  have st0: "none_of_the_parameter_names []"
    by (simp add: none_of_the_parameter_names_def)
  have st1: "none_of_the_parameter_names ''xyz''"
    by (simp add: none_of_the_parameter_names_def)
  have plain: "AuthorizationURL example_config (CallbackURL example_auth) ''public''
     = Inr (OAuthAuthenticator_AuthorizationURL example_config example_auth [] ''public'' False)
   \<and> occurrences ''client_id''
        (OAuthAuthenticator_AuthorizationURL example_config example_auth [] ''public'' False) = 1
   \<and> occurrences ''redirect_uri''
        (OAuthAuthenticator_AuthorizationURL example_config example_auth [] ''public'' False) = 1
   \<and> occurrences ''scope''
        (OAuthAuthenticator_AuthorizationURL example_config example_auth [] ''public'' False) = 1
   \<and> occurrences ''state''
        (OAuthAuthenticator_AuthorizationURL example_config example_auth [] ''public'' False) = 0
   \<and> occurrences ''approval_prompt''
        (OAuthAuthenticator_AuthorizationURL example_config example_auth [] ''public'' False) = 0"
    using AuthorizationURL_occurrences [OF pos cb sc, of "[]" False] base call scop st0
    by simp
  have full: "occurrences ''client_id''
        (OAuthAuthenticator_AuthorizationURL example_config example_auth ''xyz'' ''public'' True) = 1
   \<and> occurrences ''redirect_uri''
        (OAuthAuthenticator_AuthorizationURL example_config example_auth ''xyz'' ''public'' True) = 1
   \<and> occurrences ''scope''
        (OAuthAuthenticator_AuthorizationURL example_config example_auth ''xyz'' ''public'' True) = 1
   \<and> occurrences ''state''
        (OAuthAuthenticator_AuthorizationURL example_config example_auth ''xyz'' ''public'' True) = 1
   \<and> occurrences ''approval_prompt''
        (OAuthAuthenticator_AuthorizationURL example_config example_auth ''xyz'' ''public'' True) = 1"
    using AuthorizationURL_occurrences [OF pos cb sc, of "''xyz''" True] base call scop st1
    by simp
  from plain full show ?thesis by simp
qed

text \<open>
  C9 as stated fails: with the callback URL \<^verbatim>\<open>http://localhost:8080/scope\<close>, a positive
  client id and the scope \<^verbatim>\<open>public\<close>, the URL of both builders contains \<^verbatim>\<open>scope\<close>
  twice.
\<close>

theorem AuthorizationURL_occurrences_counterexample:
  "0 < ClientId example_config
   \<and> CallbackURL (example_auth\<lparr>CallbackURL := ''http://localhost:8080/scope''\<rparr>) \<noteq> []
   \<and> ''public'' \<noteq> []
   \<and> AuthorizationURL example_config ''http://localhost:8080/scope'' ''public''
       = Inr (OAuthAuthenticator_AuthorizationURL example_config
                (example_auth\<lparr>CallbackURL := ''http://localhost:8080/scope''\<rparr>)
                [] ''public'' False)
   \<and> occurrences ''scope''
        (OAuthAuthenticator_AuthorizationURL example_config
           (example_auth\<lparr>CallbackURL := ''http://localhost:8080/scope''\<rparr>) [] ''public'' False)
       = 2"
proof -
  have "occurrences ''scope''
        (OAuthAuthenticator_AuthorizationURL example_config
           (example_auth\<lparr>CallbackURL := ''http://localhost:8080/scope''\<rparr>) [] ''public'' False)
       = 2"
    unfolding OAuthAuthenticator_AuthorizationURL_plain occurrences_scope
    by (simp add: example_config_def example_auth_def)
  then show ?thesis
    by (simp add: AuthorizationURL_def OAuthAuthenticator_AuthorizationURL_plain
        example_config_def example_auth_def)
qed

subsection \<open>\<^verbatim>\<open>ExchangeToken\<close>\<close>

text \<open>
  On a map that is not nil, \<^verbatim>\<open>ExchangeToken\<close> sends one request with the default
  client and decides on the answer by the range 200 to 299 of the status code alone.
\<close>

lemma ExchangeToken_posts:
  "ExchangeToken cfg rt (Some values) =
     (Inr (case http_DefaultClient rt (token_url cfg) (token_form cfg values) of
        Inl (err, resp) \<Rightarrow> (None, resp, Some (TransportError err))
      | Inr resp \<Rightarrow>
          if \<not> (200 \<le> StatusCode resp \<and> StatusCode resp \<le> 299)
            then (None, Some resp, Some (errors_New ''Strava API error''))
          else
            (case Unmarshal_AuthorizationResponse rt (Body resp)
                    (zero_AuthorizationResponse (AthleteSummary_zero rt)) of
               (response, Some err) \<Rightarrow> (None, Some resp, Some (UnmarshalError err))
             | (response, None) \<Rightarrow> (Some response, Some resp, None))),
      [(token_url cfg, token_form cfg values)])"
  by (simp add: ExchangeToken_def token_url_def token_form_def Let_def sdiv_100_eq_2
      split: sum.split prod.split)

text \<open>
  C4, what the code does. For every form and every response with a status outside 200
  to 299, \<^verbatim>\<open>ExchangeToken\<close> returns the one error \<^verbatim>\<open>errors.New("Strava API error")\<close>,
  whatever the body holds: the decoded error response is not read, and none of
  \<^verbatim>\<open>OAuthServerErr\<close>, \<^verbatim>\<open>OAuthInvalidCredentialsErr\<close>, \<^verbatim>\<open>OAuthInvalidCodeErr\<close> or the
  decoded error response is returned. On a body whose first error detail is on the
  resource Application the classification gives \<^verbatim>\<open>OAuthInvalidCredentialsErr\<close>, as
  \<^verbatim>\<open>Authorize\<close> returns.
\<close>

theorem ExchangeToken_non_2xx:
  assumes "http_DefaultClient rt (token_url cfg) (token_form cfg values) = Inr resp"
    and "\<not> (200 \<le> StatusCode resp \<and> StatusCode resp \<le> 299)"
  shows "fst (ExchangeToken cfg rt (Some values))
           = Inr (None, Some resp, Some (errors_New ''Strava API error''))"
  using assms by (simp add: ExchangeToken_posts)

theorem ExchangeToken_non_2xx_witness:
  "fst (ExchangeToken example_config
          (stub_runtime \<lparr>StatusCode = 401, Body = body_Application\<rparr>)
          (Some [''code'' \<mapsto> [''abc'']]))
     = Inr (None, Some \<lparr>StatusCode = 401, Body = body_Application\<rparr>,
            Some (errors_New ''Strava API error''))
   \<and> classify 401 (fst (stub_Unmarshal_Error body_Application zero_StravaErrorResponse))
     = OAuthInvalidCredentialsErr"
proof -
  have "fst (ExchangeToken example_config
          (stub_runtime \<lparr>StatusCode = 401, Body = body_Application\<rparr>)
          (Some [''code'' \<mapsto> [''abc'']]))
     = Inr (None, Some \<lparr>StatusCode = 401, Body = body_Application\<rparr>,
            Some (errors_New ''Strava API error''))"
    using ExchangeToken_non_2xx
      [of "stub_runtime \<lparr>StatusCode = 401, Body = body_Application\<rparr>"
        example_config "[''code'' \<mapsto> [''abc'']]"
        "\<lparr>StatusCode = 401, Body = body_Application\<rparr>"]
    by (simp add: stub_runtime_def)
  then show ?thesis
    by (simp add: classify_def stub_Unmarshal_Error_def zero_StravaErrorResponse_def)
qed

subsection \<open>The client secret\<close>

text \<open>
  C8, as it holds. The authorization URL does not depend on the client secret: with
  any two secrets and the same other inputs, each of the two builders returns the same
  result, so the secret occurs in a URL only where the text of the other inputs holds
  it. The secret is sent as the form value \<^verbatim>\<open>client_secret\<close> of the one request that
  \<^verbatim>\<open>Authorize\<close> and \<^verbatim>\<open>ExchangeToken\<close> post to \<^verbatim>\<open>/oauth/token\<close>.
\<close>

theorem secret_only_in_token_post:
  "OAuthAuthenticator_AuthorizationURL (cfg\<lparr>ClientSecret := secret\<rparr>) auth state scope force
     = OAuthAuthenticator_AuthorizationURL (cfg\<lparr>ClientSecret := secret'\<rparr>) auth state scope force
   \<and> AuthorizationURL (cfg\<lparr>ClientSecret := secret\<rparr>) callbackURL scope
     = AuthorizationURL (cfg\<lparr>ClientSecret := secret'\<rparr>) callbackURL scope
   \<and> (code \<noteq> [] \<longrightarrow>
        snd (Authorize cfg rt auth code client) = [(token_url cfg, code_form cfg code)]
        \<and> code_form cfg code ''client_secret'' = Some [ClientSecret cfg])
   \<and> snd (ExchangeToken cfg rt (Some values)) = [(token_url cfg, token_form cfg values)]
   \<and> token_form cfg values ''client_secret'' = Some [ClientSecret cfg]"
  by (simp add: OAuthAuthenticator_AuthorizationURL_def AuthorizationURL_def
      Authorize_posts ExchangeToken_posts code_form_def token_form_def)

theorem secret_only_in_token_post_witness:
  "OAuthAuthenticator_AuthorizationURL (example_config\<lparr>ClientSecret := ''code''\<rparr>)
       example_auth ''xyz'' ''public'' True
     = OAuthAuthenticator_AuthorizationURL (example_config\<lparr>ClientSecret := ''s3cr3t''\<rparr>)
       example_auth ''xyz'' ''public'' True
   \<and> snd (Authorize example_config (stub_runtime \<lparr>StatusCode = 200, Body = body_token\<rparr>)
            example_auth ''abc'' None)
     = [(token_url example_config, code_form example_config ''abc'')]
   \<and> code_form example_config ''abc'' ''client_secret'' = Some [''s3cr3t'']"
  using secret_only_in_token_post [where cfg = example_config and secret = "''code''"
      and secret' = "''s3cr3t''" and auth = example_auth and state = "''xyz''"
      and scope = "''public''" and force = True and code = "''abc''" and client = None
      and rt = "stub_runtime \<lparr>StatusCode = 200, Body = body_token\<rparr>"]
  by (simp add: example_config_def)

text \<open>
  C8 as stated fails: the secret \<^verbatim>\<open>code\<close> occurs in the URL of both builders, in
  \<^verbatim>\<open>response_type=code\<close>.
\<close>

theorem secret_in_url_counterexample:
  "sublist (ClientSecret (example_config\<lparr>ClientSecret := ''code''\<rparr>))
     (OAuthAuthenticator_AuthorizationURL (example_config\<lparr>ClientSecret := ''code''\<rparr>)
        example_auth [] ''public'' False)
   \<and> AuthorizationURL (example_config\<lparr>ClientSecret := ''code''\<rparr>)
        (CallbackURL example_auth) ''public''
     = Inr (OAuthAuthenticator_AuthorizationURL (example_config\<lparr>ClientSecret := ''code''\<rparr>)
              example_auth [] ''public'' False)"
proof -
  have "OAuthAuthenticator_AuthorizationURL (example_config\<lparr>ClientSecret := ''code''\<rparr>)
        example_auth [] ''public'' False
      = (basePath example_config @ ''/oauth/authorize?client_id='' @ fmt_d 1234
           @ ''&response_type='') @ ''code''
        @ (''&redirect_uri='' @ CallbackURL example_auth @ ''&scope=public'')"
    by (simp add: OAuthAuthenticator_AuthorizationURL_def Sprintf_authorize_def
        example_config_def)
  then have s: "sublist ''code''
     (OAuthAuthenticator_AuthorizationURL (example_config\<lparr>ClientSecret := ''code''\<rparr>)
        example_auth [] ''public'' False)"
    unfolding sublist_def by blast
  have "AuthorizationURL (example_config\<lparr>ClientSecret := ''code''\<rparr>)
               (CallbackURL example_auth) ''public''
      = Inr (OAuthAuthenticator_AuthorizationURL (example_config\<lparr>ClientSecret := ''code''\<rparr>)
        example_auth [] ''public'' False)"
    by (simp add: AuthorizationURL_def OAuthAuthenticator_AuthorizationURL_plain
        example_config_def example_auth_def)
  with s show ?thesis by simp
qed

end
